theory Spec2Isabelle
  imports Complex_Main "HOL-Library.Log_Nat"
begin

section \<open>JavaScript values\<close>

text \<open>
  The values that cross the HTTP boundary and the worker's output channel are JSON
  documents. \<open>JUndefined\<close> stands for an absent property; an object lists each of its
  keys once. Numbers are the rationals that the finite doubles embed into; only the zero
  test is ever applied to them. A \<open>string\<close> is a sequence of code units below 256.
\<close>

datatype json =
    JUndefined
  | JNull
  | JBool bool
  | JNum rat
  | JStr string
  | JArr "json list"
  | JObj "(string \<times> json) list"

text \<open>ToBoolean, as applied by \<open>!\<close>, \<open>&&\<close>, \<open>||\<close> and \<open>if\<close>.\<close>

fun truthy :: "json \<Rightarrow> bool" where
  "truthy JUndefined = False"
| "truthy JNull = False"
| "truthy (JBool b) = b"
| "truthy (JNum n) = (n \<noteq> 0)"
| "truthy (JStr s) = (s \<noteq> [])"
| "truthy (JArr xs) = True"
| "truthy (JObj kvs) = True"

text \<open>\<open>a || b\<close>.\<close>

definition or_else :: "json \<Rightarrow> json \<Rightarrow> json" where
  "or_else a b = (if truthy a then a else b)"

text \<open>
  Property read \<open>v.k\<close>: a TypeError (\<open>None\<close>) on \<open>null\<close> and \<open>undefined\<close>, the stored
  value on an object, \<open>undefined\<close> when the object lacks the key and on every primitive and
  array (none of the keys read by this program is a built-in property of those).
\<close>

fun get_prop :: "json \<Rightarrow> string \<Rightarrow> json option" where
  "get_prop JUndefined k = None"
| "get_prop JNull k = None"
| "get_prop (JObj kvs) k = Some (case map_of kvs k of Some v \<Rightarrow> v | None \<Rightarrow> JUndefined)"
| "get_prop (JBool b) k = Some JUndefined"
| "get_prop (JNum n) k = Some JUndefined"
| "get_prop (JStr s) k = Some JUndefined"
| "get_prop (JArr xs) k = Some JUndefined"

text \<open>A destructuring default \<open>{ k = d }\<close> applies to \<open>undefined\<close> only.\<close>

definition default_to :: "json \<Rightarrow> json \<Rightarrow> json" where
  "default_to v d = (if v = JUndefined then d else v)"

text \<open>
  \<open>String(v)\<close> throws a TypeError exactly when the conversion meets an object with an own
  \<open>toString\<close> member: a JSON value is never callable, so neither that member nor the
  inherited \<open>valueOf\<close> yields a primitive. An array is converted by joining the conversions
  of its elements.
\<close>

fun String_throws :: "json \<Rightarrow> bool" where
  "String_throws (JObj kvs) = (''toString'' \<in> fst ` set kvs)"
| "String_throws (JArr xs) = (\<exists>x \<in> set xs. String_throws x)"
| "String_throws JUndefined = False"
| "String_throws JNull = False"
| "String_throws (JBool b) = False"
| "String_throws (JNum n) = False"
| "String_throws (JStr s) = False"

text \<open>
  \<open>String.prototype.trim\<close> strips white space and line terminators from both ends; among
  the code units below 256 these are TAB, LF, VT, FF, CR, SP and NBSP.
\<close>

definition isWhiteSpace :: "char \<Rightarrow> bool" where
  "isWhiteSpace c = (of_char c \<in> {9 :: nat, 10, 11, 12, 13, 32, 160})"

definition trim :: "string \<Rightarrow> string" where
  "trim s = rev (dropWhile isWhiteSpace (rev (dropWhile isWhiteSpace s)))"

text \<open>Decimal rendering of a status code inside a template literal.\<close>

function show_nat :: "nat \<Rightarrow> string" where
  "show_nat n =
     (if n < 10 then [char_of (48 + n)]
      else show_nat (n div 10) @ [char_of (48 + n mod 10)])"
  by pat_completeness auto
termination
  by (relation "measure id") auto

section \<open>JavaScript numbers\<close>

text \<open>
  A number of the program is an IEEE 754 double: not-a-number, an infinity, or a finite
  value, kept as the rational it denotes (the two zeros are one value here: no test of
  this program tells them apart). Every sum and difference is the exact result rounded
  to the nearest double, ties to the even significand: \<open>to_double\<close> rounds to 53
  significant bits in the binade of the value, to multiples of \<open>2^-1074\<close> below the normal
  range, and gives an infinity from \<open>2^1024\<close> on.
\<close>

datatype jsnum = NaN | PosInf | NegInf | Fin rat

definition pow2 :: "int \<Rightarrow> rat" where
  "pow2 k = (if 0 \<le> k then 2 ^ nat k else 1 / 2 ^ nat (- k))"

text \<open>The \<open>e\<close> with \<open>2^e \<le> a < 2^(e+1)\<close>, for a positive \<open>a\<close>.\<close>

definition binade :: "rat \<Rightarrow> int" where
  "binade a = (if 1 \<le> a then bitlen \<lfloor>a\<rfloor> - 1 else - bitlen (\<lceil>1 / a\<rceil> - 1))"

definition round_half_even :: "rat \<Rightarrow> int" where
  "round_half_even m =
     (let f = \<lfloor>m\<rfloor>; r = m - of_int f in
      if r < 1 / 2 then f else if 1 / 2 < r then f + 1 else if even f then f else f + 1)"

definition to_double :: "rat \<Rightarrow> jsnum" where
  "to_double x =
     (if x = 0 then Fin 0
      else
        (let a = \<bar>x\<bar>;
             t = max (binade a) (- 1022) - 52;
             y = of_int (round_half_even (a / pow2 t)) * pow2 t
         in if 2 ^ 1024 \<le> y then (if 0 < x then PosInf else NegInf)
            else Fin (if 0 < x then y else - y)))"

fun js_neg :: "jsnum \<Rightarrow> jsnum" where
  "js_neg NaN = NaN"
| "js_neg PosInf = NegInf"
| "js_neg NegInf = PosInf"
| "js_neg (Fin a) = Fin (- a)"

text \<open>\<open>a + b\<close>, \<open>a - b\<close> and \<open>a >= b\<close>.\<close>

fun js_add :: "jsnum \<Rightarrow> jsnum \<Rightarrow> jsnum" where
  "js_add NaN b = NaN"
| "js_add a NaN = NaN"
| "js_add PosInf NegInf = NaN"
| "js_add NegInf PosInf = NaN"
| "js_add PosInf b = PosInf"
| "js_add a PosInf = PosInf"
| "js_add NegInf b = NegInf"
| "js_add a NegInf = NegInf"
| "js_add (Fin a) (Fin b) = to_double (a + b)"

definition js_sub :: "jsnum \<Rightarrow> jsnum \<Rightarrow> jsnum" where
  "js_sub a b = js_add a (js_neg b)"

fun js_ge :: "jsnum \<Rightarrow> jsnum \<Rightarrow> bool" where
  "js_ge NaN b = False"
| "js_ge a NaN = False"
| "js_ge PosInf b = True"
| "js_ge a NegInf = True"
| "js_ge NegInf b = False"
| "js_ge a PosInf = False"
| "js_ge (Fin a) (Fin b) = (b \<le> a)"

section \<open>The request document\<close>

text \<open>The body of \<open>POST /api/compose-song\<close>, one field per property the server reads.\<close>

record compose_body =
  lyrics :: json
  genre :: json
  tempo :: json
  key :: json

section \<open>Frontend: credits and the compose handler (App component)\<close>

datatype js_error = JsError (name: string) (message: json)

datatype history_entry = Composed string string string nat

text \<open>
  The state of the component. \<open>credits\<close> starts as \<open>Number(localStorage value)\<close>, so it can
  be any double.
\<close>

record app =
  credits :: jsnum
  lyricsResult :: string
  originalLyrics :: string
  useOriginalLyrics :: bool
  songGenre :: string
  songTempo :: string
  songKey :: string
  isPaywallOpen :: bool
  isComposing :: bool
  generatedSong :: "json option"
  generatedAudioUrl :: "string option"
  audioFile :: "string option"
  showSongEditor :: bool
  history :: "history_entry list"

text \<open>
  What a handler does beyond changing the state: alerts, the compose request, console
  output, and the calls \<open>setCredits(c => c - a)\<close> and \<open>setCredits(c => c + a)\<close>.
\<close>

datatype alert = AddLyricsFirst | SongGenerated json | GenerationError js_error

datatype effect =
    Alert alert
  | Fetch compose_body
  | ConsoleError js_error
  | CreditsMinus jsnum
  | CreditsPlus jsnum

text \<open>
  \<open>useCredit(amount)\<close>. A handler is a closure of the render that created it: the test
  reads the \<open>credits\<close> of that render, while the update \<open>setCredits(c => c - amount)\<close> is
  applied to the current state. The two agree when the handler runs on the render of the
  current state.
\<close>

definition useCredit :: "app \<Rightarrow> jsnum \<Rightarrow> app \<Rightarrow> bool \<times> app \<times> effect list" where
  "useCredit render amount st =
     (if js_ge (credits render) amount
      then (True, st\<lparr>credits := js_sub (credits st) amount\<rparr>, [CreditsMinus amount])
      else (False, st, []))"

text \<open>
  What the browser hands back to the handler: the response seen by \<open>fetch\<close>, with
  \<open>res.json()\<close> either rejecting or yielding a document.
\<close>

record http_res =
  res_status :: nat
  res_json :: "js_error + json"

definition ok :: "http_res \<Rightarrow> bool" where
  "ok res = (200 \<le> res_status res \<and> res_status res \<le> 299)"

text \<open>
  How the awaited \<open>fetch(...).finally(() => clearTimeout(timeoutId))\<close> settles: rejected
  (a network failure, or the AbortError raised by the 130 s abort timer) or resolved with a
  response.
\<close>

datatype fetch_result = FetchRejected js_error | FetchResolved http_res

text \<open>
  Browser functions the handler calls: \<open>parseInt\<close> (\<open>None\<close> is NaN), \<open>atob\<close> (which throws
  on text that is not base64), \<open>URL.createObjectURL\<close> on the decoded bytes, \<open>Date.now\<close>.
\<close>

record env =
  parseInt :: "string \<Rightarrow> rat option"
  atob :: "json \<Rightarrow> js_error + string"
  createObjectURL :: "string \<Rightarrow> string"
  now :: nat

text \<open>
  Of the alerts, \<open>GenerationError err\<close> is the one of the catch block: the time-out text
  when \<open>err.name\<close> is AbortError, otherwise "Song generation failed" followed by the
  message when there is one.
\<close>

text \<open>The message of the Error thrown for a response that is not ok.\<close>

definition error_message :: "http_res \<Rightarrow> json" where
  "error_message res =
     (let server_error = JStr (''Server error ('' @ show_nat (res_status res) @ '')'') in
      case res_json res of
        Inl e \<Rightarrow> server_error
      | Inr err \<Rightarrow>
          (case (get_prop err ''error'', get_prop err ''message'') of
             (Some e, Some m) \<Rightarrow> or_else e (or_else m (JStr ''Composition failed''))
           | _ \<Rightarrow> server_error))"

text \<open>
  The body of the \<open>try\<close> block up to the first state update: \<open>Inl\<close> is the exception that
  reaches the catch block, \<open>Inr\<close> the response document and the object URL of the audio.
\<close>

definition compose_try :: "env \<Rightarrow> fetch_result \<Rightarrow> js_error + (json \<times> string)" where
  "compose_try ev fr =
     (case fr of
        FetchRejected e \<Rightarrow> Inl e
      | FetchResolved res \<Rightarrow>
          if \<not> ok res then Inl (JsError ''Error'' (error_message res))
          else
            (case res_json res of
               Inl e \<Rightarrow> Inl e
             | Inr data \<Rightarrow>
                 (case get_prop data ''audio'' of
                    None \<Rightarrow> Inl (JsError ''TypeError'' (JStr ''Cannot read properties of null''))
                  | Some a \<Rightarrow>
                      (case atob ev a of
                         Inl e \<Rightarrow> Inl e
                       | Inr bytes \<Rightarrow> Inr (data, createObjectURL ev bytes)))))"

text \<open>The request body, built from the values the handler's render holds.\<close>

definition request_of :: "env \<Rightarrow> app \<Rightarrow> string \<Rightarrow> compose_body" where
  "request_of ev render lyricsToUse =
     \<lparr> lyrics = JStr lyricsToUse,
       genre = JStr (songGenre render),
       tempo = (case parseInt ev (songTempo render) of None \<Rightarrow> JNull | Some n \<Rightarrow> JNum n),
       key = JStr (songKey render) \<rparr>"

text \<open>
  \<open>handleCreateSongFromLyrics\<close> up to the \<open>await\<close>: the lyrics test, the debit, and
  the request. The flag tells whether the request was issued.
\<close>

definition start_compose :: "env \<Rightarrow> app \<Rightarrow> app \<Rightarrow> app \<times> effect list \<times> bool" where
  "start_compose ev render st =
     (let lyricsToUse =
            (if useOriginalLyrics render then originalLyrics render else lyricsResult render) in
      if trim lyricsToUse = [] then (st, [Alert AddLyricsFirst], False)
      else
        (case useCredit render (Fin 2) st of
           (False, st1, acts) \<Rightarrow> (st1\<lparr>isPaywallOpen := True\<rparr>, acts, False)
         | (True, st1, acts) \<Rightarrow>
             (st1\<lparr>isComposing := True\<rparr>,
              acts @ [Fetch (request_of ev render lyricsToUse)], True)))"

text \<open>
  The handler from the moment the awaited fetch has settled, on the state of that moment:
  the rest of the \<open>try\<close> block, or the catch block with its refund, then \<open>finally\<close>.
\<close>

definition settle_compose :: "env \<Rightarrow> app \<Rightarrow> fetch_result \<Rightarrow> app \<Rightarrow> app \<times> effect list" where
  "settle_compose ev render fr st =
     (case compose_try ev fr of
        Inr (data, audioUrl) \<Rightarrow>
          (st\<lparr> generatedSong := Some data,
               generatedAudioUrl := Some audioUrl,
               audioFile := Some audioUrl,
               showSongEditor := True,
               history := Composed (songGenre render) (songTempo render) (songKey render)
                            (now ev) # history st,
               isComposing := False \<rparr>,
           [Alert (SongGenerated data)])
      | Inl err \<Rightarrow>
          (st\<lparr> credits := js_add (credits st) (Fin 2), isComposing := False \<rparr>,
           [ConsoleError err, Alert (GenerationError err), CreditsPlus (Fin 2)]))"

text \<open>The whole handler, for a fetch that settles with \<open>fr\<close>.\<close>

definition handleCreateSongFromLyrics ::
    "env \<Rightarrow> fetch_result \<Rightarrow> app \<Rightarrow> app \<Rightarrow> app \<times> effect list" where
  "handleCreateSongFromLyrics ev fr render st =
     (case start_compose ev render st of
        (st1, acts, False) \<Rightarrow> (st1, acts)
      | (st1, acts, True) \<Rightarrow>
          (case settle_compose ev render fr st1 of (st2, acts2) \<Rightarrow> (st2, acts @ acts2)))"

text \<open>
  The wait itself. The handler arms a 130 s timer that aborts the fetch, and clears it when
  the fetch settles. A promise settles once: the first of the timer and the network wins,
  and what comes later changes nothing. The message of the AbortError is the browser's.
\<close>

definition abort_error :: js_error where
  "abort_error = JsError ''AbortError'' (JStr ''The user aborted a request.'')"

datatype client_event = AbortTimer | Network fetch_result

record waiting =
  abort_timer :: "nat option"
  settlement :: "fetch_result option"

definition begin_wait :: waiting where
  "begin_wait = \<lparr>abort_timer = Some 130000, settlement = None\<rparr>"

fun wait_step :: "client_event \<Rightarrow> waiting \<Rightarrow> waiting" where
  "wait_step AbortTimer w =
     (case abort_timer w of
        None \<Rightarrow> w
      | Some d \<Rightarrow>
          (case settlement w of
             None \<Rightarrow> w\<lparr>abort_timer := None, settlement := Some (FetchRejected abort_error)\<rparr>
           | Some s \<Rightarrow> w\<lparr>abort_timer := None\<rparr>))"
| "wait_step (Network fr) w =
     (case settlement w of
        None \<Rightarrow> w\<lparr>abort_timer := None, settlement := Some fr\<rparr>
      | Some s \<Rightarrow> w)"

definition await_fetch :: "client_event list \<Rightarrow> fetch_result option" where
  "await_fetch cevs = settlement (fold wait_step cevs begin_wait)"

text \<open>The handler with its wait: nothing further happens while the fetch is pending.\<close>

definition compose_session ::
    "env \<Rightarrow> client_event list \<Rightarrow> app \<Rightarrow> app \<Rightarrow> app \<times> effect list" where
  "compose_session ev cevs render st =
     (case start_compose ev render st of
        (st1, acts, False) \<Rightarrow> (st1, acts)
      | (st1, acts, True) \<Rightarrow>
          (case await_fetch cevs of
             None \<Rightarrow> (st1, acts)
           | Some fr \<Rightarrow>
               (case settle_compose ev render fr st1 of (st2, acts2) \<Rightarrow> (st2, acts @ acts2))))"

section \<open>Server: the compose-song endpoint\<close>

record response =
  status :: nat
  body :: json

text \<open>
  The four request values handed to \<open>spawn\<close> after the script path and the command
  \<open>generate\<close>. \<open>arg_tempo\<close> is the value whose \<open>String(...)\<close> rendering is passed.
\<close>

record worker_args =
  arg_lyrics :: json
  arg_genre :: json
  arg_tempo :: json
  arg_key :: json

text \<open>
  Library functions the endpoint calls: \<open>JSON.parse\<close> (\<open>None\<close> when it throws), the base64
  rendering of a buffer, and \<open>spawn\<close>, of which the endpoint only needs to know for which
  arguments it throws at once instead of returning a child (Node rejects a string argument
  that contains a null byte; a worker that cannot be started is reported later, by the
  child's error event).
\<close>

record runtime =
  JSON_parse :: "string \<Rightarrow> json option"
  toBase64 :: "string \<Rightarrow> string"
  spawn_throws :: "worker_args \<Rightarrow> bool"

text \<open>Node's check of the arguments of \<open>spawn\<close>.\<close>

definition has_null_byte :: "json \<Rightarrow> bool" where
  "has_null_byte v = (case v of JStr s \<Rightarrow> CHR 0x00 \<in> set s | _ \<Rightarrow> False)"

definition node_spawn_throws :: "worker_args \<Rightarrow> bool" where
  "node_spawn_throws a =
     (has_null_byte (arg_lyrics a) \<or> has_null_byte (arg_genre a)
      \<or> has_null_byte (arg_tempo a) \<or> has_null_byte (arg_key a))"

text \<open>\<open>python.kill()\<close> sends the default signal.\<close>

datatype signal = SIGTERM

text \<open>
  The variables of one running request: the two capture buffers, the \<open>isResolved\<close> flag,
  the pending timer (\<open>Some\<close> delay in milliseconds until it fires or is cleared), whether
  the timer's callback was run, the signals sent to the worker by \<open>python.kill()\<close>, the
  responses written to \<open>res\<close> in order, whether the handler's promise was resolved, and
  the files on disk as the handlers find them (the worker's scratch file among them once it
  is written).
\<close>

record job =
  stdoutData :: string
  stderrData :: string
  isResolved :: bool
  timeout :: "nat option"
  fired :: bool
  signals :: "signal list"
  responses :: "response list"
  resolved :: bool
  files :: "string \<rightharpoonup> string"

definition respond :: "response \<Rightarrow> job \<Rightarrow> job" where
  "respond r j = j\<lparr>responses := responses j @ [r]\<rparr>"

definition lyrics_required :: response where
  "lyrics_required = \<lparr>status = 400, body = JObj [(''error'', JStr ''Lyrics required'')]\<rparr>"

definition composition_failed :: response where
  "composition_failed =
     \<lparr>status = 500,
      body = JObj [(''error'', JStr ''Song composition failed''),
                   (''details'', JStr ''lyrics.trim is not a function'')]\<rparr>"

definition timeout_response :: response where
  "timeout_response =
     \<lparr>status = 500,
      body = JObj [(''error'', JStr ''Song generation timeout''),
                   (''message'', JStr ''Process took too long (120s)'')]\<rparr>"

definition spawn_error_response :: "string \<Rightarrow> response" where
  "spawn_error_response msg =
     \<lparr>status = 500,
      body = JObj [(''error'', JStr ''Failed to start song generator''),
                   (''detail'', JStr msg)]\<rparr>"

definition synthesis_failed :: "string \<Rightarrow> response" where
  "synthesis_failed err =
     \<lparr>status = 500,
      body = JObj [(''error'', JStr ''Song synthesis failed''), (''stderr'', JStr err)]\<rparr>"

definition parse_failed :: "string \<Rightarrow> response" where
  "parse_failed out =
     \<lparr>status = 500,
      body = JObj [(''error'', JStr ''Failed to parse synthesis result''),
                   (''details'', JStr out)]\<rparr>"

text \<open>
  How the endpoint leaves its synchronous part: it has answered; or the worker is spawned
  and the timer armed; or \<open>String(tempo)\<close> or \<open>spawn\<close> threw inside the executor of
  the promise the handler returns without awaiting it, so that the outer catch block is not
  reached, nothing is answered, and neither worker nor timer exists.
\<close>

datatype started = Replied response | Spawned worker_args job | Unanswered

text \<open>
  The endpoint up to and including \<open>spawn\<close> and \<open>setTimeout\<close>. A truthy \<open>lyrics\<close> that is
  not a string has no \<open>trim\<close> method: that TypeError is thrown before the promise is
  created and reaches the outer catch block.
\<close>

definition compose_song :: "runtime \<Rightarrow> compose_body \<Rightarrow> (string \<rightharpoonup> string) \<Rightarrow> started" where
  "compose_song rt b disk =
     (if \<not> truthy (lyrics b) then Replied lyrics_required
      else
        (case lyrics b of
           JStr s \<Rightarrow>
             if trim s = [] then Replied lyrics_required
             else
               (let a = \<lparr> arg_lyrics = lyrics b,
                          arg_genre = default_to (genre b) (JStr ''pop''),
                          arg_tempo = default_to (tempo b) (JNum 120),
                          arg_key = default_to (key b) (JStr ''C major'') \<rparr> in
                if String_throws (arg_tempo a) \<or> spawn_throws rt a then Unanswered
                else
                  Spawned a
                    \<lparr> stdoutData = [], stderrData = [], isResolved = False,
                      timeout = Some 120000, fired = False, signals = [], responses = [],
                      resolved = False, files = disk \<rparr>)
         | _ \<Rightarrow> Replied composition_failed))"

text \<open>The callback of \<open>setTimeout\<close>.\<close>

definition on_timeout :: "job \<Rightarrow> job" where
  "on_timeout j =
     (if \<not> isResolved j
      then (respond timeout_response (j\<lparr>signals := signals j @ [SIGTERM]\<rparr>))
             \<lparr>isResolved := True, resolved := True\<rparr>
      else j)"

text \<open>\<open>python.on('error', ...)\<close>.\<close>

definition on_error :: "string \<Rightarrow> job \<Rightarrow> job" where
  "on_error msg j =
     (let j1 = j\<lparr>timeout := None\<rparr> in
      if \<not> isResolved j1
      then (respond (spawn_error_response msg) j1)\<lparr>isResolved := True, resolved := True\<rparr>
      else j1)"

text \<open>\<open>fs.readFileSync\<close> and \<open>fs.unlinkSync\<close> on the path named by the worker.\<close>

definition readFileSync :: "(string \<rightharpoonup> string) \<Rightarrow> json \<Rightarrow> string option" where
  "readFileSync disk p = (case p of JStr path \<Rightarrow> disk path | _ \<Rightarrow> None)"

definition unlinkSync :: "json \<Rightarrow> (string \<rightharpoonup> string) \<Rightarrow> (string \<rightharpoonup> string)" where
  "unlinkSync p disk = (case p of JStr path \<Rightarrow> disk(path := None) | _ \<Rightarrow> disk)"

text \<open>A property of a value already known not to be \<open>null\<close>.\<close>

definition get_field :: "json \<Rightarrow> string \<Rightarrow> json" where
  "get_field v k = (case get_prop v k of Some x \<Rightarrow> x | None \<Rightarrow> JUndefined)"

definition success_response :: "runtime \<Rightarrow> worker_args \<Rightarrow> json \<Rightarrow> string \<Rightarrow> json \<Rightarrow> response" where
  "success_response rt a result audioData structure =
     \<lparr>status = 200,
      body = JObj
        [(''success'', JBool True),
         (''message'', JStr ''Song generated successfully''),
         (''audio'', JStr (toBase64 rt audioData)),
         (''metadata'', get_field result ''metadata''),
         (''sampleRate'', get_field result ''sample_rate''),
         (''duration'', get_field result ''duration''),
         (''composition'', JObj
            [(''lyrics'', arg_lyrics a),
             (''genre'', arg_genre a),
             (''tempo'', arg_tempo a),
             (''key'', arg_key a),
             (''structure'', structure),
             (''instruments'',
                JArr [JStr ''Vocals'', JStr ''Drums'', JStr ''Bass'', JStr ''Synth Pad'']),
             (''estimatedDuration'', get_field result ''duration'')])]\<rparr>"

text \<open>
  The \<open>try\<close> block of the close handler after the exit-code test. The result is the job
  (the scratch file may already be unlinked) and the response to send, or \<open>None\<close> when an
  exception reaches the catch block: \<open>JSON.parse\<close> or \<open>readFileSync\<close> threw, or a property
  was read from \<open>null\<close>.
\<close>

definition close_try :: "runtime \<Rightarrow> worker_args \<Rightarrow> job \<Rightarrow> job \<times> response option" where
  "close_try rt a j =
     (case JSON_parse rt (stdoutData j) of
        None \<Rightarrow> (j, None)
      | Some result \<Rightarrow>
          if get_prop result ''success'' = None then (j, None)
          else if truthy (get_field result ''success'') \<and> truthy (get_field result ''audio_path'') then
            (case readFileSync (files j) (get_field result ''audio_path'') of
               None \<Rightarrow> (j, None)
             | Some audioData \<Rightarrow>
                 (let j1 = j\<lparr>files := unlinkSync (get_field result ''audio_path'') (files j)\<rparr> in
                  case get_prop (get_field result ''metadata'') ''structure'' of
                    None \<Rightarrow> (j1, None)
                  | Some structure \<Rightarrow>
                      (j1, Some (success_response rt a result audioData structure))))
          else
            (j, Some \<lparr>status = 500,
                      body = JObj
                        [(''error'', or_else (get_field result ''error'') (JStr ''Song synthesis failed'')),
                         (''stderr'', JStr (stderrData j))]\<rparr>))"

text \<open>\<open>python.on('close', ...)\<close>; the exit code is \<open>None\<close> when a signal ended the worker.\<close>

definition on_close :: "runtime \<Rightarrow> worker_args \<Rightarrow> int option \<Rightarrow> job \<Rightarrow> job" where
  "on_close rt a code j =
     (let j1 = j\<lparr>timeout := None\<rparr> in
      if isResolved j1 then j1
      else
        (let j2 = j1\<lparr>isResolved := True\<rparr> in
         if code \<noteq> Some 0 then respond (synthesis_failed (stderrData j2)) j2
         else
           (case close_try rt a j2 of
              (j3, Some r) \<Rightarrow> respond r j3
            | (j3, None) \<Rightarrow> respond (parse_failed (stdoutData j3)) j3)))"

text \<open>
  What the event loop can deliver to a running request: the timer, or one of the four
  child-process events the endpoint listens to.
\<close>

datatype child_event = Stdout string | Stderr string | Error string | Close "int option"

datatype event = Timer | Child child_event

text \<open>A timer that has fired or was cleared never runs its callback.\<close>

fun step :: "runtime \<Rightarrow> worker_args \<Rightarrow> event \<Rightarrow> job \<Rightarrow> job" where
  "step rt a Timer j =
     (case timeout j of
        None \<Rightarrow> j
      | Some d \<Rightarrow> on_timeout (j\<lparr>timeout := None, fired := True\<rparr>))"
| "step rt a (Child (Stdout d)) j = j\<lparr>stdoutData := stdoutData j @ d\<rparr>"
| "step rt a (Child (Stderr d)) j = j\<lparr>stderrData := stderrData j @ d\<rparr>"
| "step rt a (Child (Error msg)) j = on_error msg j"
| "step rt a (Child (Close code)) j = on_close rt a code j"

definition run :: "runtime \<Rightarrow> worker_args \<Rightarrow> event list \<Rightarrow> job \<Rightarrow> job" where
  "run rt a es j = fold (step rt a) es j"

text \<open>All responses one request produces, validation included.\<close>

definition compose_responses ::
    "runtime \<Rightarrow> compose_body \<Rightarrow> (string \<rightharpoonup> string) \<Rightarrow> event list \<Rightarrow> response list" where
  "compose_responses rt b disk es =
     (case compose_song rt b disk of
        Replied r \<Rightarrow> [r]
      | Spawned a j \<Rightarrow> responses (run rt a es j)
      | Unanswered \<Rightarrow> [])"

section \<open>Server: callPythonProcessor\<close>

text \<open>
  The Errors the helper rejects with: "Python process timeout (60s)", "Python spawn error:"
  with the message, "Python process failed" with the exit code and the captured stderr,
  and "Failed to parse Python output".
\<close>

datatype proc_error =
    ProcTimeout
  | ProcSpawnError string
  | ProcFailed "int option" string
  | ProcParseError

datatype settlement = Resolve json | Reject proc_error








section \<open>The event loop around a timer\<close>



fun is_exit :: "child_event \<Rightarrow> bool" where
  "is_exit (Error msg) = True"
| "is_exit (Close code) = True"
| "is_exit (Stdout d) = False"
| "is_exit (Stderr d) = False"




section \<open>Vocabulary of the statements\<close>

text \<open>The value handed to the worker as tempo lies in the band 60 to 200.\<close>

definition tempo_in_range :: "json \<Rightarrow> bool" where
  "tempo_in_range v = (case v of JNum n \<Rightarrow> 60 \<le> n \<and> n \<le> 200 | _ \<Rightarrow> False)"

definition spawned_tempo :: "started \<Rightarrow> json option" where
  "spawned_tempo s =
     (case s of Spawned a j \<Rightarrow> Some (arg_tempo a) | Replied r \<Rightarrow> None | Unanswered \<Rightarrow> None)"

text \<open>The lyrics the compose handler works on.\<close>

definition lyricsToUse :: "app \<Rightarrow> string" where
  "lyricsToUse st = (if useOriginalLyrics st then originalLyrics st else lyricsResult st)"

text \<open>The request the handler sends.\<close>

definition request :: "env \<Rightarrow> app \<Rightarrow> compose_body" where
  "request ev render = request_of ev render (lyricsToUse render)"

text \<open>The refunds and the debits among the effects of a handler.\<close>

fun is_refund :: "effect \<Rightarrow> bool" where
  "is_refund (CreditsPlus a) = True"
| "is_refund (CreditsMinus a) = False"
| "is_refund (Alert m) = False"
| "is_refund (Fetch b) = False"
| "is_refund (ConsoleError e) = False"

fun is_debit :: "effect \<Rightarrow> bool" where
  "is_debit (CreditsMinus a) = True"
| "is_debit (CreditsPlus a) = False"
| "is_debit (Alert m) = False"
| "is_debit (Fetch b) = False"
| "is_debit (ConsoleError e) = False"

definition refunds :: "effect list \<Rightarrow> nat" where
  "refunds acts = length (filter is_refund acts)"

definition debits_made :: "effect list \<Rightarrow> nat" where
  "debits_made acts = length (filter is_debit acts)"

text \<open>The request did not deliver a song: an exception reaches the catch block.\<close>

definition failed :: "env \<Rightarrow> fetch_result \<Rightarrow> bool" where
  "failed ev fr = isl (compose_try ev fr)"




text \<open>An event that ends the wait of a running request.\<close>

fun is_terminal :: "event \<Rightarrow> bool" where
  "is_terminal Timer = True"
| "is_terminal (Child c) = is_exit c"

text \<open>
  Two job states that agree on everything but the capture buffers, and the two shapes a
  job can have: waiting with the timer pending and nothing sent, or resolved with one
  response sent.
\<close>

definition quiet :: "job \<Rightarrow> job \<Rightarrow> bool" where
  "quiet j j' =
     (isResolved j' = isResolved j \<and> timeout j' = timeout j \<and> fired j' = fired j
      \<and> signals j' = signals j \<and> responses j' = responses j \<and> files j' = files j)"

definition well_formed :: "job \<Rightarrow> bool" where
  "well_formed j =
     (if isResolved j then length (responses j) = 1
      else timeout j \<noteq> None \<and> responses j = [])"


subsection \<open>Sample inputs\<close>

definition sample_runtime :: runtime where
  "sample_runtime =
     \<lparr>JSON_parse = (\<lambda>s. None), toBase64 = (\<lambda>s. s), spawn_throws = node_spawn_throws\<rparr>"


definition sample_disk :: "string \<rightharpoonup> string" where
  "sample_disk = [''/tmp/song.wav'' \<mapsto> ''RIFF'']"

definition sample_body :: compose_body where
  "sample_body = \<lparr>lyrics = JStr ''la la'', genre = JStr ''pop'', tempo = JNum 500, key = JUndefined\<rparr>"

text \<open>A request whose tempo is the JSON object with the one member \<open>toString\<close>.\<close>

definition hostile_body :: compose_body where
  "hostile_body =
     \<lparr>lyrics = JStr ''la la'', genre = JStr ''pop'',
      tempo = JObj [(''toString'', JNum 1)], key = JUndefined\<rparr>"

definition sample_args :: worker_args where
  "sample_args =
     \<lparr>arg_lyrics = JStr ''la la'', arg_genre = JStr ''pop'', arg_tempo = JNum 500,
      arg_key = JStr ''C major''\<rparr>"

definition sample_job :: job where
  "sample_job =
     \<lparr>stdoutData = [], stderrData = [], isResolved = False, timeout = Some 120000,
      fired = False, signals = [], responses = [], resolved = False, files = sample_disk\<rparr>"

definition sample_env :: env where
  "sample_env =
     \<lparr>parseInt = (\<lambda>s. if s = ''120'' then Some 120 else None),
      atob = (\<lambda>v. case v of JStr s \<Rightarrow> Inr s
                     | _ \<Rightarrow> Inl (JsError ''InvalidCharacterError'' (JStr ''not base64''))),
      createObjectURL = (\<lambda>bytes. ''blob:'' @ bytes),
      now = 0\<rparr>"

definition sample_app :: app where
  "sample_app =
     \<lparr>credits = Fin 5, lyricsResult = ''la la'', originalLyrics = [], useOriginalLyrics = False,
      songGenre = ''pop'', songTempo = ''120'', songKey = ''C major'', isPaywallOpen = False,
      isComposing = False, generatedSong = None, generatedAudioUrl = None, audioFile = None,
      showSongEditor = False, history = []\<rparr>"

definition sample_request :: compose_body where
  "sample_request =
     \<lparr>lyrics = JStr ''la la'', genre = JStr ''pop'', tempo = JNum 120, key = JStr ''C major''\<rparr>"

text \<open>The sample state with a balance of \<open>2^54 + 4\<close>, and with one of \<open>10^16\<close>.\<close>

definition rich_app :: app where
  "rich_app = sample_app\<lparr>credits := Fin 18014398509481988\<rparr>"


definition sample_success :: http_res where
  "sample_success =
     \<lparr>res_status = 200,
      res_json = Inr (JObj [(''success'', JBool True), (''audio'', JStr ''UklGRg=='')])\<rparr>"

definition sample_failure :: http_res where
  "sample_failure =
     \<lparr>res_status = 500,
      res_json = Inr (JObj [(''error'', JStr ''Song generation timeout'')])\<rparr>"

definition sample_unreadable :: http_res where
  "sample_unreadable =
     \<lparr>res_status = 200,
      res_json = Inl (JsError ''SyntaxError'' (JStr ''Unexpected end of JSON input''))\<rparr>"

definition sample_null :: http_res where
  "sample_null = \<lparr>res_status = 200, res_json = Inr JNull\<rparr>"

definition sample_bad_audio :: http_res where
  "sample_bad_audio = \<lparr>res_status = 200, res_json = Inr (JObj [(''audio'', JNum 1)])\<rparr>"

section \<open>Double arithmetic on integers: helper lemmas\<close>

lemma round_half_even_of_int: "round_half_even (of_int k) = k"
  by (simp add: round_half_even_def)

lemma pow2_nonpos: "t \<le> 0 \<Longrightarrow> pow2 t = 1 / 2 ^ nat (- t)"
  by (cases "t = 0") (simp_all add: pow2_def)

lemma binade_of_int: "1 \<le> m \<Longrightarrow> binade (of_int m) = bitlen m - 1"
  by (simp add: binade_def)

lemma bitlen_safe:
  assumes "1 \<le> m" "m \<le> 2 ^ 53"
  shows "0 \<le> bitlen m - 1 \<and> bitlen m - 1 \<le> 53 \<and> (bitlen m - 1 = 53 \<longrightarrow> m = 2 ^ 53)"
proof -
  from assms have pos: "0 < m" by simp
  from bitlen_bounds[OF pos] have lo: "2 ^ nat (bitlen m - 1) \<le> m" by simp
  have ge: "1 \<le> bitlen m"
    using pos bitlen_eq_zero_iff[of m] bitlen_nonneg[of m] by (cases "bitlen m = 0") auto
  from lo assms(2) have "(2::int) ^ nat (bitlen m - 1) \<le> 2 ^ 53" by (rule order_trans)
  then have "nat (bitlen m - 1) \<le> 53"
    by (rule power_le_imp_le_exp[rotated]) simp
  with ge have le: "bitlen m - 1 \<le> 53" by simp
  have "bitlen m - 1 = 53 \<longrightarrow> m = 2 ^ 53"
  proof
    assume "bitlen m - 1 = 53"
    with lo have "(2::int) ^ 53 \<le> m" by simp
    with assms(2) show "m = 2 ^ 53" by simp
  qed
  with ge le show ?thesis by simp
qed

lemma to_double_pos_int:
  assumes "1 \<le> m" "m \<le> 2 ^ 53"
  shows "of_int (round_half_even (of_int m / pow2 (max (binade (of_int m)) (- 1022) - 52)))
           * pow2 (max (binade (of_int m)) (- 1022) - 52) = (of_int m :: rat)"
proof -
  let ?e = "bitlen m - 1"
  from bitlen_safe[OF assms] have e: "0 \<le> ?e" "?e \<le> 53" "?e = 53 \<longrightarrow> m = 2 ^ 53"
    by simp_all
  have t: "max (binade (of_int m)) (- 1022) - 52 = ?e - 52"
    using e(1) assms(1) by (simp add: binade_of_int)
  show ?thesis
  proof (cases "?e = 53")
    case True
    with e(3) have m: "m = 2 ^ 53" by simp
    have t1: "max (binade (of_int m)) (- 1022) - 52 = 1"
      using t True by simp
    have "(of_int m :: rat) / pow2 1 = of_int (2 ^ 52)"
      by (simp add: m pow2_def)
    then have r: "round_half_even (of_int m / pow2 1) = 2 ^ 52"
      by (simp only: round_half_even_of_int)
    have "(of_int (2 ^ 52) :: rat) * pow2 1 = of_int m"
      by (simp add: m pow2_def)
    then show ?thesis
      unfolding t1 r .
  next
    case False
    with e(2) have le: "?e - 52 \<le> 0" by simp
    let ?k = "nat (- (?e - 52))"
    have p: "pow2 (?e - 52) = 1 / 2 ^ ?k"
      using le by (rule pow2_nonpos)
    have "(of_int m :: rat) / pow2 (?e - 52) = of_int (m * 2 ^ ?k)"
      unfolding p by simp
    then have r: "round_half_even (of_int m / pow2 (?e - 52)) = m * 2 ^ ?k"
      by (simp only: round_half_even_of_int)
    have fin: "(of_int (m * 2 ^ ?k) :: rat) * (1 / 2 ^ ?k) = of_int m"
      by simp
    show ?thesis
      by (simp only: t r) (simp only: p fin)
  qed
qed

lemma to_double_of_int:
  assumes "\<bar>n\<bar> \<le> 2 ^ 53"
  shows "to_double (of_int n) = Fin (of_int n)"
proof (cases "n = 0")
  case True
  then show ?thesis by (simp add: to_double_def)
next
  case False
  let ?m = "\<bar>n\<bar>"
  have m: "1 \<le> ?m" "?m \<le> 2 ^ 53"
    using False assms by simp_all
  have a: "\<bar>of_int n :: rat\<bar> = of_int ?m"
    by simp
  from to_double_pos_int[OF m]
  have y: "of_int (round_half_even (of_int ?m / pow2 (max (binade (of_int ?m)) (- 1022) - 52)))
           * pow2 (max (binade (of_int ?m)) (- 1022) - 52) = (of_int ?m :: rat)" .
  have small: "\<not> (2 :: rat) ^ 1024 \<le> of_int ?m"
  proof -
    have "(of_int ?m :: rat) \<le> 2 ^ 53"
      using m(2) by (metis of_int_le_iff of_int_numeral of_int_power)
    moreover have "(2 :: rat) ^ 53 < 2 ^ 1024"
      by (rule power_strict_increasing) simp_all
    ultimately show ?thesis by simp
  qed
  have "to_double (of_int n) = Fin (if 0 < (of_int n :: rat) then of_int ?m else - of_int ?m)"
    unfolding to_double_def Let_def a y using False small by simp
  then show ?thesis
    by (cases "0 < n") simp_all
qed

lemma js_sub_int:
  "\<bar>a - b\<bar> \<le> 2 ^ 53 \<Longrightarrow> js_sub (Fin (of_int a)) (Fin (of_int b)) = Fin (of_int (a - b))"
  using to_double_of_int[of "a - b"] by (simp add: js_sub_def)

lemma js_add_int:
  "\<bar>a + b\<bar> \<le> 2 ^ 53 \<Longrightarrow> js_add (Fin (of_int a)) (Fin (of_int b)) = Fin (of_int (a + b))"
  using to_double_of_int[of "a + b"] by simp

lemma js_sub_small:
  "js_sub (Fin 5) (Fin 2) = Fin 3" "js_sub (Fin 3) (Fin 2) = Fin 1"
  "js_sub (Fin 1) (Fin 2) = Fin (- 1)" "js_add (Fin 3) (Fin 2) = Fin 5"
  using js_sub_int[of 5 2] js_sub_int[of 3 2] js_sub_int[of 1 2] js_add_int[of 3 2]
  by simp_all

lemma to_double_large:
  "to_double 18014398509481986 = Fin 18014398509481984"
  "to_double 9999999999999999 = Fin 10000000000000000"
  by code_simp+

lemma js_large:
  "js_sub (Fin 18014398509481988) (Fin 2) = Fin 18014398509481984"
  "js_add (Fin 18014398509481984) (Fin 2) = Fin 18014398509481984"
  "js_sub (Fin 10000000000000000) (Fin 1) = Fin 10000000000000000"
  by (simp_all add: js_sub_def to_double_large)

section \<open>Running a job: helper lemmas\<close>

lemma run_Nil: "run rt a [] j = j"
  by (simp add: run_def)

lemma run_Cons: "run rt a (e # es) j = run rt a es (step rt a e j)"
  by (simp add: run_def)




lemma step_output_quiet: "\<not> is_exit c \<Longrightarrow> quiet j (step rt a (Child c) j)"
  by (cases c) (simp_all add: quiet_def)


lemma close_try_keeps:
  "close_try rt a j = (j', r) \<Longrightarrow>
     isResolved j' = isResolved j \<and> timeout j' = timeout j \<and> fired j' = fired j
     \<and> signals j' = signals j
     \<and> responses j' = responses j \<and> stdoutData j' = stdoutData j
     \<and> stderrData j' = stderrData j"
  by (auto simp: close_try_def Let_def split: option.splits if_splits)

lemma close_try_not_timeout: "close_try rt a j = (j', Some r) \<Longrightarrow> r \<noteq> timeout_response"
  by (auto simp: close_try_def Let_def timeout_response_def success_response_def
      split: option.splits if_splits)



lemma step_timer:
  "\<not> isResolved j \<Longrightarrow> timeout j = Some d \<Longrightarrow>
     isResolved (step rt a Timer j) \<and> timeout (step rt a Timer j) = None
     \<and> fired (step rt a Timer j) \<and> signals (step rt a Timer j) = signals j @ [SIGTERM]
     \<and> responses (step rt a Timer j) = responses j @ [timeout_response]
     \<and> files (step rt a Timer j) = files j"
  by (simp add: on_timeout_def respond_def)

lemma step_exit:
  assumes "\<not> isResolved j" "is_exit c"
  shows "isResolved (step rt a (Child c) j) \<and> timeout (step rt a (Child c) j) = None
     \<and> fired (step rt a (Child c) j) = fired j
     \<and> signals (step rt a (Child c) j) = signals j
     \<and> (\<exists>r. responses (step rt a (Child c) j) = responses j @ [r] \<and> r \<noteq> timeout_response)"
proof (cases c)
  case (Error msg)
  then show ?thesis using assms
    by (simp add: on_error_def respond_def Let_def spawn_error_response_def
        timeout_response_def)
next
  case (Close code)
  show ?thesis
  proof (cases "code \<noteq> Some 0")
    case True
    then show ?thesis using assms Close
      by (simp add: on_close_def respond_def Let_def synthesis_failed_def timeout_response_def)
  next
    case False
    obtain j3 r where ct: "close_try rt a (j\<lparr>timeout := None, isResolved := True\<rparr>) = (j3, r)"
      by (cases "close_try rt a (j\<lparr>timeout := None, isResolved := True\<rparr>)") auto
    from close_try_keeps[OF ct]
    have k: "isResolved j3" "timeout j3 = None" "fired j3 = fired j" "signals j3 = signals j"
      "responses j3 = responses j"
      by simp_all
    show ?thesis
    proof (cases r)
      case None
      then show ?thesis using assms Close False ct k
        by (simp add: on_close_def respond_def Let_def parse_failed_def timeout_response_def)
    next
      case (Some r')
      with ct have "r' \<noteq> timeout_response"
        by (auto dest: close_try_not_timeout)
      then show ?thesis using assms Close False ct k Some
        by (simp add: on_close_def respond_def Let_def)
    qed
  qed
qed (use assms in simp_all)






lemma step_well_formed: "well_formed j \<Longrightarrow> well_formed (step rt a e j)"
proof (cases "isResolved j")
  case True
  assume wf: "well_formed j"
  show ?thesis
  proof (cases e)
    case Timer
    then show ?thesis using True wf
      by (simp add: well_formed_def on_timeout_def split: option.splits)
  next
    case (Child c)
    then show ?thesis using True wf
      by (cases c) (simp_all add: well_formed_def on_error_def on_close_def Let_def)
  qed
next
  case False
  assume wf: "well_formed j"
  then obtain d where d: "timeout j = Some d" and r: "responses j = []"
    using False by (auto simp: well_formed_def)
  show ?thesis
  proof (cases e)
    case Timer
    then show ?thesis using step_timer[OF False d, of rt a] r
      by (simp add: well_formed_def)
  next
    case (Child c)
    show ?thesis
    proof (cases "is_exit c")
      case True
      from step_exit[OF False True, of rt a] show ?thesis
        using Child r by (auto simp: well_formed_def)
    next
      case no: False
      from step_output_quiet[OF no, of j rt a] show ?thesis
        using Child wf by (simp add: well_formed_def quiet_def)
    qed
  qed
qed

lemma run_well_formed: "well_formed j \<Longrightarrow> well_formed (run rt a es j)"
  by (induction es arbitrary: j) (simp_all add: run_Nil run_Cons step_well_formed)

lemma step_terminal_resolves:
  "well_formed j \<Longrightarrow> is_terminal e \<Longrightarrow> isResolved (step rt a e j)"
proof (cases "isResolved j")
  case True
  assume "well_formed j" "is_terminal e"
  show ?thesis
  proof (cases e)
    case Timer
    then show ?thesis using True by (simp add: on_timeout_def split: option.splits)
  next
    case (Child c)
    then show ?thesis using True
      by (cases c) (simp_all add: on_error_def on_close_def Let_def)
  qed
next
  case False
  assume wf: "well_formed j" and te: "is_terminal e"
  from wf False obtain d where d: "timeout j = Some d"
    by (auto simp: well_formed_def)
  show ?thesis
  proof (cases e)
    case Timer
    then show ?thesis using step_timer[OF False d, of rt a] by simp
  next
    case (Child c)
    with te have "is_exit c" by simp
    from step_exit[OF False this, of rt a] show ?thesis
      using Child by simp
  qed
qed

lemma step_stays_resolved: "isResolved j \<Longrightarrow> isResolved (step rt a e j)"
proof (cases e)
  case Timer
  assume "isResolved j"
  then show ?thesis using Timer by (simp add: on_timeout_def split: option.splits)
next
  case (Child c)
  assume "isResolved j"
  then show ?thesis using Child
    by (cases c) (simp_all add: on_error_def on_close_def Let_def)
qed

lemma run_stays_resolved: "isResolved j \<Longrightarrow> isResolved (run rt a es j)"
  by (induction es arbitrary: j) (simp_all add: run_Nil run_Cons step_stays_resolved)

lemma run_terminal_resolves:
  "well_formed j \<Longrightarrow> list_ex is_terminal es \<Longrightarrow> isResolved (run rt a es j)"
proof (induction es arbitrary: j)
  case Nil
  then show ?case by simp
next
  case (Cons e es)
  show ?case
  proof (cases "is_terminal e")
    case True
    from step_terminal_resolves[OF Cons.prems(1) True, of rt a] show ?thesis
      by (simp add: run_Cons run_stays_resolved)
  next
    case False
    with Cons.prems(2) have "list_ex is_terminal es" by simp
    from Cons.IH[OF step_well_formed[OF Cons.prems(1)] this] show ?thesis
      by (simp add: run_Cons)
  qed
qed

lemma spawned_fresh:
  "compose_song rt b disk = Spawned a j \<Longrightarrow>
     \<not> isResolved j \<and> timeout j = Some 120000 \<and> \<not> fired j \<and> signals j = []
     \<and> responses j = [] \<and> stdoutData j = [] \<and> stderrData j = []
     \<and> files j = disk \<and> well_formed j"
  by (auto simp: compose_song_def well_formed_def Let_def split: if_splits json.splits)

lemma readFileSync_Some:
  "readFileSync disk v = Some x \<Longrightarrow> \<exists>p. v = JStr p \<and> disk p = Some x"
  by (cases v) (simp_all add: readFileSync_def)

lemma close_try_files:
  assumes "close_try rt a j = (j', r)"
  shows "files j' = files j
     \<or> (\<exists>res p. JSON_parse rt (stdoutData j) = Some res
            \<and> truthy (get_field res ''success'') \<and> get_field res ''audio_path'' = JStr p
            \<and> files j p \<noteq> None \<and> files j' = (files j)(p := None))"
proof (cases "JSON_parse rt (stdoutData j)")
  case None
  with assms show ?thesis by (simp add: close_try_def)
next
  case (Some res)
  show ?thesis
  proof (cases "get_prop res ''success'' \<noteq> None \<and> truthy (get_field res ''success'')
      \<and> truthy (get_field res ''audio_path'')")
    case False
    with assms Some show ?thesis
      by (auto simp: close_try_def split: if_splits)
  next
    case True
    show ?thesis
    proof (cases "readFileSync (files j) (get_field res ''audio_path'')")
      case None
      with assms Some True show ?thesis
        by (simp add: close_try_def)
    next
      case (Some x)
      from readFileSync_Some[OF this] obtain p
        where p: "get_field res ''audio_path'' = JStr p" "files j p = Some x"
        by blast
      have "files j' = (files j)(p := None)"
        using assms \<open>JSON_parse rt (stdoutData j) = Some res\<close> True Some p
        by (auto simp: close_try_def Let_def unlinkSync_def split: option.splits)
      with \<open>JSON_parse rt (stdoutData j) = Some res\<close> True p show ?thesis
        by auto
    qed
  qed
qed

lemma on_close_files:
  "files (on_close rt a code j) \<noteq> files j
      \<longrightarrow> \<not> isResolved j \<and> code = Some 0
          \<and> (\<exists>res p. JSON_parse rt (stdoutData j) = Some res
                 \<and> truthy (get_field res ''success'') \<and> get_field res ''audio_path'' = JStr p
                 \<and> files j p \<noteq> None)"
proof (cases "isResolved j \<or> code \<noteq> Some 0")
  case True
  then show ?thesis
    by (auto simp: on_close_def respond_def Let_def)
next
  case False
  obtain j3 r where ct: "close_try rt a (j\<lparr>timeout := None, isResolved := True\<rparr>) = (j3, r)"
    by (cases "close_try rt a (j\<lparr>timeout := None, isResolved := True\<rparr>)") auto
  have "files (on_close rt a code j) = files j3"
    using False ct by (cases r) (simp_all add: on_close_def respond_def Let_def)
  with close_try_files[OF ct] False show ?thesis
    by auto
qed

section \<open>Running a processor call: helper lemmas\<close>













section \<open>Captured output and response codes: helper lemmas\<close>


lemma close_try_status:
  "close_try rt a j = (j', Some r) \<Longrightarrow> status r = 200 \<or> status r = 500"
  by (auto simp: close_try_def Let_def success_response_def split: option.splits if_splits)

lemma step_statuses:
  assumes "\<forall>r \<in> set (responses j). status r = 200 \<or> status r = 400 \<or> status r = 500"
  shows "\<forall>r \<in> set (responses (step rt a e j)). status r = 200 \<or> status r = 400 \<or> status r = 500"
proof (cases e)
  case Timer
  then show ?thesis using assms
    by (auto simp: on_timeout_def respond_def timeout_response_def split: option.splits)
next
  case (Child c)
  show ?thesis
  proof (cases c)
    case (Close code)
    obtain j3 r where ct: "close_try rt a (j\<lparr>timeout := None, isResolved := True\<rparr>) = (j3, r)"
      by (cases "close_try rt a (j\<lparr>timeout := None, isResolved := True\<rparr>)") auto
    from close_try_keeps[OF ct] have k: "responses j3 = responses j"
      by simp
    show ?thesis
    proof (cases r)
      case None
      then show ?thesis using assms Child Close ct k
        by (auto simp: on_close_def respond_def Let_def synthesis_failed_def parse_failed_def)
    next
      case (Some r')
      from close_try_status[OF ct[unfolded Some]] show ?thesis using assms Child Close ct k Some
        by (auto simp: on_close_def respond_def Let_def synthesis_failed_def)
    qed
  next
    case (Error msg)
    then show ?thesis using assms Child
      by (auto simp: on_error_def respond_def Let_def spawn_error_response_def)
  qed (use assms Child in simp_all)
qed

lemma run_statuses:
  "\<forall>r \<in> set (responses j). status r = 200 \<or> status r = 400 \<or> status r = 500 \<Longrightarrow>
   \<forall>r \<in> set (responses (run rt a es j)). status r = 200 \<or> status r = 400 \<or> status r = 500"
proof (induction es arbitrary: j)
  case Nil
  then show ?case by (simp add: run_Nil)
next
  case (Cons e es)
  from Cons.IH[OF step_statuses[OF Cons.prems]] show ?case
    by (simp add: run_Cons)
qed

lemma compose_statuses:
  "r \<in> set (compose_responses rt b disk es) \<Longrightarrow> status r = 200 \<or> status r = 400 \<or> status r = 500"
proof (cases "compose_song rt b disk")
  case (Replied r')
  assume "r \<in> set (compose_responses rt b disk es)"
  with Replied have "r = r'" by (simp add: compose_responses_def)
  moreover from Replied have "r' = lyrics_required \<or> r' = composition_failed"
    by (auto simp: compose_song_def Let_def split: if_splits json.splits)
  ultimately show ?thesis
    by (auto simp: lyrics_required_def composition_failed_def)
next
  case (Spawned a j)
  assume r: "r \<in> set (compose_responses rt b disk es)"
  from spawned_fresh[OF Spawned] have "responses j = []" by simp
  then have "\<forall>r \<in> set (responses j). status r = 200 \<or> status r = 400 \<or> status r = 500"
    by simp
  from run_statuses[OF this, of rt a es] r Spawned show ?thesis
    by (simp add: compose_responses_def)
next
  case Unanswered
  assume "r \<in> set (compose_responses rt b disk es)"
  with Unanswered show ?thesis by (simp add: compose_responses_def)
qed

lemma responses_at_most_one: "length (compose_responses rt b disk es) \<le> 1"
proof (cases "compose_song rt b disk")
  case (Spawned a j)
  from spawned_fresh[OF Spawned] have "well_formed j" by simp
  then have "well_formed (run rt a es j)" by (rule run_well_formed)
  then show ?thesis using Spawned
    by (simp add: compose_responses_def well_formed_def split: if_splits)
qed (simp_all add: compose_responses_def)

section \<open>The wait of the handler: helper lemmas\<close>

lemma wait_settled:
  "settlement w = Some s \<Longrightarrow> settlement (fold wait_step cevs w) = Some s"
proof (induction cevs arbitrary: w)
  case Nil
  then show ?case by simp
next
  case (Cons c cevs)
  have "settlement (wait_step c w) = Some s"
    using Cons.prems by (cases c) (simp_all split: option.splits)
  from Cons.IH[OF this] show ?case by simp
qed

lemma await_first:
  "await_fetch (AbortTimer # cevs) = Some (FetchRejected abort_error)"
  "await_fetch (Network fr # cevs) = Some fr"
  by (simp_all add: await_fetch_def begin_wait_def wait_settled)

section \<open>Credits and the compose handler: helper lemmas\<close>

lemma start_compose_issued:
  assumes "trim (lyricsToUse render) \<noteq> []" "js_ge (credits render) (Fin 2)"
  shows "start_compose ev render st
     = (st\<lparr>credits := js_sub (credits st) (Fin 2), isComposing := True\<rparr>,
        [CreditsMinus (Fin 2), Fetch (request ev render)], True)"
  using assms by (simp add: start_compose_def useCredit_def lyricsToUse_def request_def)

lemma start_compose_cases:
  "start_compose ev render st = (st, [Alert AddLyricsFirst], False)
   \<or> start_compose ev render st = (st\<lparr>isPaywallOpen := True\<rparr>, [], False)
   \<or> (js_ge (credits render) (Fin 2)
       \<and> start_compose ev render st
          = (st\<lparr>credits := js_sub (credits st) (Fin 2), isComposing := True\<rparr>,
             [CreditsMinus (Fin 2), Fetch (request ev render)], True))"
  by (auto simp: start_compose_def useCredit_def lyricsToUse_def request_def Let_def)

lemma handler_failed:
  assumes "trim (lyricsToUse render) \<noteq> []" "js_ge (credits render) (Fin 2)" "failed ev fr"
  shows "handleCreateSongFromLyrics ev fr render st
     = (st\<lparr>credits := js_add (js_sub (credits st) (Fin 2)) (Fin 2), isComposing := False\<rparr>,
        [CreditsMinus (Fin 2), Fetch (request ev render)]
        @ [ConsoleError (projl (compose_try ev fr)),
           Alert (GenerationError (projl (compose_try ev fr))), CreditsPlus (Fin 2)])"
proof -
  from assms(3) obtain err where e: "compose_try ev fr = Inl err"
    by (cases "compose_try ev fr") (simp_all add: failed_def)
  show ?thesis
    by (simp add: handleCreateSongFromLyrics_def start_compose_issued[OF assms(1,2)]
        settle_compose_def e)
qed

lemma handler_delivered:
  assumes "trim (lyricsToUse render) \<noteq> []" "js_ge (credits render) (Fin 2)" "\<not> failed ev fr"
  shows "credits (fst (handleCreateSongFromLyrics ev fr render st)) = js_sub (credits st) (Fin 2)
     \<and> snd (handleCreateSongFromLyrics ev fr render st)
         = [CreditsMinus (Fin 2), Fetch (request ev render),
            Alert (SongGenerated (fst (projr (compose_try ev fr))))]"
proof -
  from assms(3) obtain data url where e: "compose_try ev fr = Inr (data, url)"
    by (cases "compose_try ev fr") (auto simp: failed_def)
  show ?thesis
    by (simp add: handleCreateSongFromLyrics_def start_compose_issued[OF assms(1,2)]
        settle_compose_def e)
qed

lemma handler_counts:
  assumes "trim (lyricsToUse render) \<noteq> []" "js_ge (credits render) (Fin 2)"
  shows "debits_made (snd (handleCreateSongFromLyrics ev fr render st)) = 1
     \<and> refunds (snd (handleCreateSongFromLyrics ev fr render st)) = (if failed ev fr then 1 else 0)
     \<and> credits (fst (handleCreateSongFromLyrics ev fr render st))
          = (if failed ev fr then js_add (js_sub (credits st) (Fin 2)) (Fin 2)
             else js_sub (credits st) (Fin 2))"
proof (cases "failed ev fr")
  case True
  from handler_failed[OF assms True, of st] show ?thesis
    using True by (simp add: refunds_def debits_made_def)
next
  case False
  from handler_delivered[OF assms False, of st] show ?thesis
    using False by (simp add: refunds_def debits_made_def)
qed

lemma session_is_handler:
  "await_fetch cevs = Some fr \<Longrightarrow>
     compose_session ev cevs render st = handleCreateSongFromLyrics ev fr render st"
  by (simp add: compose_session_def handleCreateSongFromLyrics_def split: prod.splits bool.splits)

lemma failed_classes:
  "failed ev (FetchRejected e)"
  "\<not> ok res \<Longrightarrow> failed ev (FetchResolved res)"
  "ok res \<Longrightarrow> res_json res = Inl e \<Longrightarrow> failed ev (FetchResolved res)"
  "ok res \<Longrightarrow> res_json res = Inr data \<Longrightarrow> get_prop data ''audio'' = None
     \<Longrightarrow> failed ev (FetchResolved res)"
  "ok res \<Longrightarrow> res_json res = Inr data \<Longrightarrow> get_prop data ''audio'' = Some au
     \<Longrightarrow> atob ev au = Inl e \<Longrightarrow> failed ev (FetchResolved res)"
  "ok res \<Longrightarrow> res_json res = Inr data \<Longrightarrow> get_prop data ''audio'' = Some au
     \<Longrightarrow> atob ev au = Inr bytes \<Longrightarrow> \<not> failed ev (FetchResolved res)"
  by (simp_all add: failed_def compose_try_def)

lemma restore_safe:
  assumes "2 \<le> n" "n \<le> 2 ^ 53"
  shows "js_sub (Fin (of_int n)) (Fin 2) = Fin (of_int (n - 2))
     \<and> js_add (js_sub (Fin (of_int n)) (Fin 2)) (Fin 2) = Fin (of_int n)"
proof -
  have s: "js_sub (Fin (of_int n)) (Fin (of_int 2)) = Fin (of_int (n - 2))"
    using assms by (intro js_sub_int) simp
  have "js_add (Fin (of_int (n - 2))) (Fin (of_int 2)) = Fin (of_int (n - 2 + 2))"
    using assms by (intro js_add_int) simp
  with s show ?thesis by simp
qed




section \<open>The time ceiling of a worker\<close>



section \<open>One response per request\<close>

text \<open>
  C4. The endpoint does not answer every request. A request with well-formed lyrics whose
  tempo is the object with the one member \<open>toString\<close> makes \<open>String(tempo)\<close> throw inside the
  executor of the promise that the handler returns without awaiting it: the outer catch
  block, which is there to answer 500 "Song composition failed", is not reached, no worker
  and no timer exist, and whatever happens afterwards no response is written. A null byte
  in the lyrics has the same effect through \<open>spawn\<close>.
\<close>

theorem unanswered_request:
  "compose_song sample_runtime hostile_body sample_disk = Unanswered
   \<and> (\<forall>es. compose_responses sample_runtime hostile_body sample_disk es = [])
   \<and> compose_song sample_runtime (sample_body\<lparr>lyrics := JStr [CHR ''l'', CHR 0x00, CHR ''a'']\<rparr>)
        sample_disk = Unanswered"
proof -
  have u: "compose_song sample_runtime hostile_body sample_disk = Unanswered"
    by (simp add: compose_song_def hostile_body_def default_to_def trim_def isWhiteSpace_def)
  then have "\<forall>es. compose_responses sample_runtime hostile_body sample_disk es = []"
    by (simp add: compose_responses_def)
  moreover have "compose_song sample_runtime
      (sample_body\<lparr>lyrics := JStr [CHR ''l'', CHR 0x00, CHR ''a'']\<rparr>) sample_disk = Unanswered"
    by (simp add: compose_song_def sample_body_def sample_runtime_def node_spawn_throws_def
        has_null_byte_def default_to_def trim_def isWhiteSpace_def)
  ultimately show ?thesis
    using u by blast
qed

section \<open>Crash and malformed output\<close>




section \<open>The scratch audio file\<close>

text \<open>
  C6 as stated fails: a worker that wrote its scratch file and then exited with code 1 is
  answered with the crash failure, and the file is still on disk.
\<close>

theorem scratch_file_left_counterexample:
  "compose_song sample_runtime sample_body sample_disk = Spawned sample_args sample_job
   \<and> responses (run sample_runtime sample_args [Child (Close (Some 1))] sample_job)
       = [synthesis_failed []]
   \<and> files (run sample_runtime sample_args [Child (Close (Some 1))] sample_job) ''/tmp/song.wav''
       = Some ''RIFF''"
  by (simp add: compose_song_def sample_body_def sample_args_def sample_job_def
      sample_runtime_def node_spawn_throws_def has_null_byte_def
      sample_disk_def default_to_def trim_def isWhiteSpace_def run_def on_close_def
      respond_def Let_def)

text \<open>
  C6, amended. The runner removes the scratch audio file on one path only: the request is
  still waiting, the worker closed with exit code 0, and its parsed result has a truthy
  \<open>success\<close> and names in \<open>audio_path\<close> a file that can be read; the file is then unlinked
  right after it is read. The timer's callback, a spawn error, output chunks, a close with
  a non-zero exit code, a close with unparsable output and a close after the request was
  resolved leave the files on disk unchanged.
\<close>

theorem scratch_file_cleanup:
  "files (step rt a Timer j) = files j
   \<and> files (step rt a (Child (Error msg)) j) = files j
   \<and> files (step rt a (Child (Stdout d)) j) = files j
   \<and> files (step rt a (Child (Stderr d)) j) = files j
   \<and> (code \<noteq> Some 0 \<or> isResolved j \<or> JSON_parse rt (stdoutData j) = None
        \<longrightarrow> files (on_close rt a code j) = files j)
   \<and> (\<not> isResolved j \<and> JSON_parse rt (stdoutData j) = Some result
        \<and> truthy (get_field result ''success'') \<and> get_field result ''audio_path'' = JStr path
        \<and> path \<noteq> [] \<and> files j path = Some audioData
        \<longrightarrow> files (on_close rt a (Some 0) j) = (files j)(path := None))
   \<and> (files (on_close rt a code j) \<noteq> files j
        \<longrightarrow> \<not> isResolved j \<and> code = Some 0
            \<and> (\<exists>res p. JSON_parse rt (stdoutData j) = Some res
                   \<and> truthy (get_field res ''success'') \<and> get_field res ''audio_path'' = JStr p
                   \<and> files j p \<noteq> None))"
proof -
  have t: "files (step rt a Timer j) = files j"
    by (simp add: on_timeout_def respond_def split: option.splits)
  have e: "files (step rt a (Child (Error msg)) j) = files j"
    by (simp add: on_error_def respond_def Let_def)
  have c: "code \<noteq> Some 0 \<or> isResolved j \<or> JSON_parse rt (stdoutData j) = None
      \<longrightarrow> files (on_close rt a code j) = files j"
    by (auto simp: on_close_def respond_def Let_def close_try_def)
  have s: "\<not> isResolved j \<and> JSON_parse rt (stdoutData j) = Some result
      \<and> truthy (get_field result ''success'') \<and> get_field result ''audio_path'' = JStr path
      \<and> path \<noteq> [] \<and> files j path = Some audioData
      \<longrightarrow> files (on_close rt a (Some 0) j) = (files j)(path := None)"
    by (auto simp: on_close_def respond_def Let_def close_try_def readFileSync_def
        unlinkSync_def get_field_def split: option.splits)
  have o: "files (on_close rt a code j) \<noteq> files j
      \<longrightarrow> \<not> isResolved j \<and> code = Some 0
          \<and> (\<exists>res p. JSON_parse rt (stdoutData j) = Some res
                 \<and> truthy (get_field res ''success'') \<and> get_field res ''audio_path'' = JStr p
                 \<and> files j p \<noteq> None)"
    by (rule on_close_files)
  have so: "files (step rt a (Child (Stdout d)) j) = files j"
    by simp
  have se: "files (step rt a (Child (Stderr d)) j) = files j"
    by simp
  show ?thesis
    by (intro conjI) (rule t e so se c s o)+
qed

theorem scratch_file_cleanup_witness:
  "\<not> isResolved (sample_job\<lparr>stdoutData := ''ok''\<rparr>)
   \<and> files (on_close
        \<lparr>JSON_parse = (\<lambda>s. Some (JObj [(''success'', JBool True),
                                          (''audio_path'', JStr ''/tmp/song.wav'')])),
         toBase64 = (\<lambda>s. s), spawn_throws = node_spawn_throws\<rparr>
        sample_args (Some 0) (sample_job\<lparr>stdoutData := ''ok''\<rparr>)) ''/tmp/song.wav'' = None
   \<and> files (on_close sample_runtime sample_args (Some 1) sample_job) ''/tmp/song.wav''
       = Some ''RIFF''"
proof -
  let ?rt = "\<lparr>JSON_parse = (\<lambda>s. Some (JObj [(''success'', JBool True),
                                          (''audio_path'', JStr ''/tmp/song.wav'')])),
         toBase64 = (\<lambda>s. s), spawn_throws = node_spawn_throws\<rparr>"
  let ?j = "sample_job\<lparr>stdoutData := ''ok''\<rparr>"
  have a: "\<not> isResolved ?j \<and> JSON_parse ?rt (stdoutData ?j)
        = Some (JObj [(''success'', JBool True), (''audio_path'', JStr ''/tmp/song.wav'')])
      \<and> truthy (get_field (JObj [(''success'', JBool True), (''audio_path'', JStr ''/tmp/song.wav'')])
            ''success'')
      \<and> get_field (JObj [(''success'', JBool True), (''audio_path'', JStr ''/tmp/song.wav'')])
            ''audio_path'' = JStr ''/tmp/song.wav''
      \<and> ''/tmp/song.wav'' \<noteq> [] \<and> files ?j ''/tmp/song.wav'' = Some ''RIFF''"
    by (simp add: sample_job_def sample_disk_def get_field_def)
  have b: "(Some 1 :: int option) \<noteq> Some 0"
    by simp
  from scratch_file_cleanup[where rt = ?rt and a = sample_args and j = ?j
      and result = "JObj [(''success'', JBool True), (''audio_path'', JStr ''/tmp/song.wav'')]"
      and path = "''/tmp/song.wav''" and audioData = "''RIFF''"] a
  have w1: "files (on_close ?rt sample_args (Some 0) ?j) = (files ?j)(''/tmp/song.wav'' := None)"
    by blast
  from scratch_file_cleanup[where rt = sample_runtime and a = sample_args and j = sample_job
      and code = "Some 1"] b
  have w2: "files (on_close sample_runtime sample_args (Some 1) sample_job) = files sample_job"
    by blast
  have "\<not> isResolved ?j"
    using a by blast
  moreover have "files (on_close ?rt sample_args (Some 0) ?j) ''/tmp/song.wav'' = None"
    by (simp only: w1 fun_upd_same)
  moreover have "files sample_job ''/tmp/song.wav'' = Some ''RIFF''"
    by (simp add: sample_job_def sample_disk_def)
  then have "files (on_close sample_runtime sample_args (Some 1) sample_job) ''/tmp/song.wav''
      = Some ''RIFF''"
    by (simp only: w2)
  ultimately show ?thesis
    by blast
qed

section \<open>Input validation\<close>

text \<open>
  C2. Lyrics that are empty or consist of white space only are rejected at once. The
  endpoint answers 400 "Lyrics required" and spawns no worker, whatever events follow; the
  frontend handler shows the "Add lyrics first" alert, issues no compose request, makes no
  debit and leaves the whole state, the credit balance included, as it was.
\<close>

theorem blank_lyrics_rejected:
  "(trim s = [] \<longrightarrow>
      compose_song rt (b\<lparr>lyrics := JStr s\<rparr>) disk = Replied lyrics_required
      \<and> compose_responses rt (b\<lparr>lyrics := JStr s\<rparr>) disk es = [lyrics_required]
      \<and> status lyrics_required = 400)
   \<and> (trim (lyricsToUse render) = [] \<longrightarrow>
      handleCreateSongFromLyrics ev fr render st = (st, [Alert AddLyricsFirst])
      \<and> credits (fst (handleCreateSongFromLyrics ev fr render st)) = credits st
      \<and> debits_made (snd (handleCreateSongFromLyrics ev fr render st)) = 0
      \<and> (\<forall>req. Fetch req \<notin> set (snd (handleCreateSongFromLyrics ev fr render st))))"
proof -
  have srv: "trim s = [] \<longrightarrow>
      compose_song rt (b\<lparr>lyrics := JStr s\<rparr>) disk = Replied lyrics_required"
    by (simp add: compose_song_def)
  then have "trim s = [] \<longrightarrow>
      compose_responses rt (b\<lparr>lyrics := JStr s\<rparr>) disk es = [lyrics_required]"
    by (simp add: compose_responses_def)
  moreover have "status lyrics_required = 400"
    by (simp add: lyrics_required_def)
  moreover have "trim (lyricsToUse render) = [] \<longrightarrow>
      handleCreateSongFromLyrics ev fr render st = (st, [Alert AddLyricsFirst])"
    by (simp add: handleCreateSongFromLyrics_def start_compose_def lyricsToUse_def)
  ultimately show ?thesis
    using srv by (simp add: debits_made_def)
qed

theorem blank_lyrics_rejected_witness:
  "trim '' \<newline>  '' = []
   \<and> compose_song sample_runtime (sample_body\<lparr>lyrics := JStr '' \<newline>  ''\<rparr>) sample_disk
       = Replied lyrics_required
   \<and> trim (lyricsToUse (sample_app\<lparr>lyricsResult := '' \<newline>  ''\<rparr>)) = []
   \<and> handleCreateSongFromLyrics sample_env (FetchResolved sample_success)
        (sample_app\<lparr>lyricsResult := '' \<newline>  ''\<rparr>) (sample_app\<lparr>lyricsResult := '' \<newline>  ''\<rparr>)
      = (sample_app\<lparr>lyricsResult := '' \<newline>  ''\<rparr>, [Alert AddLyricsFirst])"
proof -
  have a: "trim '' \<newline>  '' = []"
    by (simp add: trim_def isWhiteSpace_def)
  have b: "trim (lyricsToUse (sample_app\<lparr>lyricsResult := '' \<newline>  ''\<rparr>)) = []"
    by (simp add: lyricsToUse_def sample_app_def trim_def isWhiteSpace_def)
  from blank_lyrics_rejected[of "'' \<newline>  ''" sample_runtime sample_body sample_disk "[]"
      "sample_app\<lparr>lyricsResult := '' \<newline>  ''\<rparr>" sample_env "FetchResolved sample_success"
      "sample_app\<lparr>lyricsResult := '' \<newline>  ''\<rparr>"] a b
  show ?thesis
    by simp
qed

section \<open>Tempo\<close>

text \<open>
  C8 as stated fails: a request with tempo 500 starts the worker with tempo 500, which is
  outside the band 60 to 200.
\<close>

theorem tempo_not_clamped_counterexample:
  "spawned_tempo (compose_song sample_runtime sample_body sample_disk) = Some (JNum 500)
   \<and> \<not> tempo_in_range (JNum 500)"
  by (simp add: spawned_tempo_def compose_song_def sample_body_def default_to_def trim_def
      sample_runtime_def node_spawn_throws_def has_null_byte_def
      isWhiteSpace_def tempo_in_range_def)

text \<open>
  C8, amended. The tempo is forwarded, not clamped: the endpoint hands the worker the
  request's tempo as it came, and 120 when the request has none; the frontend handler
  sends \<open>parseInt(songTempo)\<close> as it is (\<open>null\<close> when that is NaN).
\<close>

theorem tempo_forwarded:
  "(compose_song rt b disk = Spawned a j \<longrightarrow> arg_tempo a = default_to (tempo b) (JNum 120))
   \<and> (Fetch req \<in> set (snd (handleCreateSongFromLyrics ev fr render st)) \<longrightarrow>
        tempo req = (case parseInt ev (songTempo render) of None \<Rightarrow> JNull | Some n \<Rightarrow> JNum n))"
proof -
  have "compose_song rt b disk = Spawned a j \<longrightarrow> arg_tempo a = default_to (tempo b) (JNum 120)"
    by (auto simp: compose_song_def Let_def split: if_splits json.splits)
  moreover have "Fetch req \<in> set (snd (handleCreateSongFromLyrics ev fr render st)) \<longrightarrow>
      tempo req = (case parseInt ev (songTempo render) of None \<Rightarrow> JNull | Some n \<Rightarrow> JNum n)"
    using start_compose_cases[of ev render st]
    by (auto simp: handleCreateSongFromLyrics_def settle_compose_def request_def request_of_def
        split: sum.splits prod.splits)
  ultimately show ?thesis
    by simp
qed

theorem tempo_forwarded_witness:
  "compose_song sample_runtime sample_body sample_disk = Spawned sample_args sample_job
   \<and> arg_tempo sample_args = JNum 500
   \<and> Fetch sample_request
       \<in> set (snd (handleCreateSongFromLyrics sample_env (FetchRejected abort_error)
                 sample_app sample_app))
   \<and> tempo sample_request = JNum 120"
proof -
  have s: "compose_song sample_runtime sample_body sample_disk = Spawned sample_args sample_job"
    by (simp add: compose_song_def sample_body_def sample_args_def sample_job_def
        sample_runtime_def node_spawn_throws_def has_null_byte_def
        default_to_def trim_def isWhiteSpace_def)
  have v: "trim (lyricsToUse sample_app) \<noteq> []" "js_ge (credits sample_app) (Fin 2)"
    by (simp_all add: lyricsToUse_def sample_app_def trim_def isWhiteSpace_def)
  have q: "request sample_env sample_app = sample_request"
    by (simp add: request_def request_of_def lyricsToUse_def sample_app_def sample_env_def
        sample_request_def)
  have f: "Fetch sample_request
       \<in> set (snd (handleCreateSongFromLyrics sample_env (FetchRejected abort_error)
                 sample_app sample_app))"
    using handler_failed[OF v failed_classes(1), of sample_env abort_error sample_app] q
    by simp
  note t = tempo_forwarded[of sample_runtime sample_body sample_disk sample_args sample_job
      sample_request sample_env "FetchRejected abort_error" sample_app sample_app]
  from t s have "arg_tempo sample_args = default_to (tempo sample_body) (JNum 120)"
    by blast
  then have a: "arg_tempo sample_args = JNum 500"
    by (simp add: sample_body_def default_to_def)
  from t f have "tempo sample_request
      = (case parseInt sample_env (songTempo sample_app) of None \<Rightarrow> JNull | Some n \<Rightarrow> JNum n)"
    by blast
  then have b: "tempo sample_request = JNum 120"
    by (simp add: sample_env_def sample_app_def)
  from s a f b show ?thesis
    by blast
qed

section \<open>Credits\<close>




text \<open>
  C7. The handler does not refuse every request of a caller whose balance is below the
  cost. Run on a render that shows 3 credits while the current balance is 1, it passes the
  test of \<open>useCredit(2)\<close>, debits, and issues the compose request: the balance becomes -1.
  The test reads the render's balance where the update reads the current one.
\<close>

theorem stale_render_request:
  "start_compose sample_env (sample_app\<lparr>credits := Fin 3\<rparr>) (sample_app\<lparr>credits := Fin 1\<rparr>)
     = (sample_app\<lparr>credits := Fin (- 1), isComposing := True\<rparr>,
        [CreditsMinus (Fin 2), Fetch sample_request], True)
   \<and> \<not> js_ge (credits (sample_app\<lparr>credits := Fin 1\<rparr>)) (Fin 2)"
proof -
  let ?render = "sample_app\<lparr>credits := Fin 3\<rparr>"
  have v: "trim (lyricsToUse ?render) \<noteq> []" "js_ge (credits ?render) (Fin 2)"
    by (simp_all add: lyricsToUse_def sample_app_def trim_def isWhiteSpace_def)
  have q: "request sample_env ?render = sample_request"
    by (simp add: request_def request_of_def lyricsToUse_def sample_app_def sample_env_def
        sample_request_def)
  from start_compose_issued[OF v, of sample_env "sample_app\<lparr>credits := Fin 1\<rparr>"] q
  show ?thesis
    by (simp add: js_sub_small)
qed

text \<open>
  C1 as stated fails: a caller whose balance is \<open>2^54 + 4\<close> and whose request ends with an
  error response is left with \<open>2^54\<close>. The debit and the refund are each applied once, but
  neither \<open>2^54 + 2\<close> is a double, so the balance is not restored.
\<close>

theorem refund_not_restoring_counterexample:
  "credits rich_app = Fin 18014398509481988
   \<and> failed sample_env (FetchResolved sample_failure)
   \<and> credits (fst (handleCreateSongFromLyrics sample_env (FetchResolved sample_failure)
         rich_app rich_app)) = Fin 18014398509481984"
proof -
  have c: "credits rich_app = Fin 18014398509481988"
    by (simp add: rich_app_def)
  have v: "trim (lyricsToUse rich_app) \<noteq> []" "js_ge (credits rich_app) (Fin 2)"
    by (simp_all add: rich_app_def lyricsToUse_def sample_app_def trim_def isWhiteSpace_def)
  have f: "failed sample_env (FetchResolved sample_failure)"
    by (rule failed_classes(2)) (simp add: ok_def sample_failure_def)
  from handler_counts[OF v, of sample_env "FetchResolved sample_failure" rich_app] f
  have "credits (fst (handleCreateSongFromLyrics sample_env (FetchResolved sample_failure)
         rich_app rich_app)) = js_add (js_sub (credits rich_app) (Fin 2)) (Fin 2)"
    by simp
  also have "\<dots> = Fin 18014398509481984"
    by (simp only: c js_large)
  finally show ?thesis
    using c f by blast
qed

text \<open>
  C1, amended. For a request that passed validation and whose debit was taken, on every
  balance: the debit \<open>c => c - 2\<close> is applied once; when the request does not deliver a song
  (the fetch is rejected or aborted, the response is not ok, its body cannot be read, or
  it holds no decodable audio) the refund \<open>c => c + 2\<close> is applied exactly once, and when
  the song is delivered it is not applied. This holds however often the ways to fail are
  triggered: of the handler's abort timer and the network the first settles the fetch and
  the handler runs on that alone; the server writes at most one response for the request,
  also when its timer and the close event both arrive, and every response of it with a
  status other than 200 is a failure for the handler. The final balance is the double
  arithmetic of these updates: when the balance at the debit is an integer between 2 and
  \<open>2^53\<close>, a failed request restores it and a delivered song leaves it 2 lower.
\<close>

theorem refund_once_per_request:
  assumes "trim (lyricsToUse render) \<noteq> []" and "js_ge (credits render) (Fin 2)"
  shows "debits_made (snd (handleCreateSongFromLyrics ev fr render st)) = 1
    \<and> refunds (snd (handleCreateSongFromLyrics ev fr render st)) = (if failed ev fr then 1 else 0)
    \<and> credits (fst (handleCreateSongFromLyrics ev fr render st))
         = (if failed ev fr then js_add (js_sub (credits st) (Fin 2)) (Fin 2)
            else js_sub (credits st) (Fin 2))
    \<and> failed ev (FetchRejected e)
    \<and> (\<not> ok res \<longrightarrow> failed ev (FetchResolved res))
    \<and> (ok res \<and> res_json res = Inl e \<longrightarrow> failed ev (FetchResolved res))
    \<and> (ok res \<and> res_json res = Inr data \<and> get_prop data ''audio'' = None \<longrightarrow>
          failed ev (FetchResolved res))
    \<and> (ok res \<and> res_json res = Inr data \<and> get_prop data ''audio'' = Some au
          \<and> atob ev au = Inl e \<longrightarrow> failed ev (FetchResolved res))
    \<and> (ok res \<and> res_json res = Inr data \<and> get_prop data ''audio'' = Some au
          \<and> atob ev au = Inr bytes \<longrightarrow> \<not> failed ev (FetchResolved res))
    \<and> compose_session ev (AbortTimer # cevs) render st
         = handleCreateSongFromLyrics ev (FetchRejected abort_error) render st
    \<and> compose_session ev (Network fr # cevs) render st
         = handleCreateSongFromLyrics ev fr render st
    \<and> length (compose_responses rt (request ev render) disk es) \<le> 1
    \<and> (\<forall>r \<in> set (compose_responses rt (request ev render) disk es).
          status r \<noteq> 200 \<and> res_status res = status r \<longrightarrow> failed ev (FetchResolved res))
    \<and> (credits st = Fin (of_int n) \<and> 2 \<le> n \<and> n \<le> 2 ^ 53 \<longrightarrow>
          js_sub (credits st) (Fin 2) = Fin (of_int (n - 2))
          \<and> js_add (js_sub (credits st) (Fin 2)) (Fin 2) = credits st)"
proof -
  note h = handler_counts[OF assms, of ev fr st]
  have c1: "debits_made (snd (handleCreateSongFromLyrics ev fr render st)) = 1"
    using h by simp
  have c2: "refunds (snd (handleCreateSongFromLyrics ev fr render st))
      = (if failed ev fr then 1 else 0)"
    using h by simp
  have c3: "credits (fst (handleCreateSongFromLyrics ev fr render st))
      = (if failed ev fr then js_add (js_sub (credits st) (Fin 2)) (Fin 2)
         else js_sub (credits st) (Fin 2))"
    using h by simp
  have c4: "failed ev (FetchRejected e)"
    by (rule failed_classes)
  have c5: "\<not> ok res \<longrightarrow> failed ev (FetchResolved res)"
    by (simp add: failed_classes)
  have c6: "ok res \<and> res_json res = Inl e \<longrightarrow> failed ev (FetchResolved res)"
    by (simp add: failed_classes)
  have c7: "ok res \<and> res_json res = Inr data \<and> get_prop data ''audio'' = None \<longrightarrow>
      failed ev (FetchResolved res)"
    by (simp add: failed_classes)
  have c8: "ok res \<and> res_json res = Inr data \<and> get_prop data ''audio'' = Some au
      \<and> atob ev au = Inl e \<longrightarrow> failed ev (FetchResolved res)"
    using failed_classes(5)[of res data au ev e] by blast
  have c9: "ok res \<and> res_json res = Inr data \<and> get_prop data ''audio'' = Some au
      \<and> atob ev au = Inr bytes \<longrightarrow> \<not> failed ev (FetchResolved res)"
    using failed_classes(6)[of res data au ev bytes] by blast
  have c10: "compose_session ev (AbortTimer # cevs) render st
      = handleCreateSongFromLyrics ev (FetchRejected abort_error) render st"
    by (rule session_is_handler) (rule await_first)
  have c11: "compose_session ev (Network fr # cevs) render st
      = handleCreateSongFromLyrics ev fr render st"
    by (rule session_is_handler) (rule await_first)
  have c12: "length (compose_responses rt (request ev render) disk es) \<le> 1"
    by (rule responses_at_most_one)
  have c13: "\<forall>r \<in> set (compose_responses rt (request ev render) disk es).
      status r \<noteq> 200 \<and> res_status res = status r \<longrightarrow> failed ev (FetchResolved res)"
  proof (intro ballI impI)
    fix r
    assume r: "r \<in> set (compose_responses rt (request ev render) disk es)"
      and s: "status r \<noteq> 200 \<and> res_status res = status r"
    from compose_statuses[OF r] s have "res_status res = 400 \<or> res_status res = 500"
      by auto
    then have "\<not> ok res"
      by (auto simp: ok_def)
    then show "failed ev (FetchResolved res)"
      by (rule failed_classes)
  qed
  have c14: "credits st = Fin (of_int n) \<and> 2 \<le> n \<and> n \<le> 2 ^ 53 \<longrightarrow>
      js_sub (credits st) (Fin 2) = Fin (of_int (n - 2))
      \<and> js_add (js_sub (credits st) (Fin 2)) (Fin 2) = credits st"
    using restore_safe[of n] by auto
  show ?thesis
    by (intro conjI) (rule c1 c2 c3 c4 c5 c6 c7 c8 c9 c10 c11 c12 c13 c14)+
qed

theorem refund_once_per_request_witness:
  "trim (lyricsToUse sample_app) \<noteq> [] \<and> js_ge (credits sample_app) (Fin 2)
   \<and> \<not> ok sample_failure
   \<and> refunds (snd (handleCreateSongFromLyrics sample_env (FetchResolved sample_failure)
        sample_app sample_app)) = 1
   \<and> credits (fst (handleCreateSongFromLyrics sample_env (FetchResolved sample_failure)
        sample_app sample_app)) = Fin 5
   \<and> ok sample_unreadable
   \<and> failed sample_env (FetchResolved sample_unreadable)
   \<and> failed sample_env (FetchResolved sample_null)
   \<and> failed sample_env (FetchResolved sample_bad_audio)
   \<and> ok sample_success
   \<and> refunds (snd (handleCreateSongFromLyrics sample_env (FetchResolved sample_success)
        sample_app sample_app)) = 0
   \<and> credits (fst (handleCreateSongFromLyrics sample_env (FetchResolved sample_success)
        sample_app sample_app)) = Fin 3
   \<and> refunds (snd (compose_session sample_env
        [Network (FetchResolved sample_failure), AbortTimer,
         Network (FetchResolved sample_failure)] sample_app sample_app)) = 1
   \<and> compose_responses sample_runtime sample_request sample_disk
        [Timer, Child (Close None), Child (Error ''late'')] = [timeout_response]
   \<and> status timeout_response = 500
   \<and> res_status sample_failure = status timeout_response"
proof -
  let ?bad = "JsError ''InvalidCharacterError'' (JStr ''not base64'')"
  let ?syn = "JsError ''SyntaxError'' (JStr ''Unexpected end of JSON input'')"
  let ?doc = "JObj [(''success'', JBool True), (''audio'', JStr ''UklGRg=='')]"
  let ?es = "[Timer, Child (Close None), Child (Error ''late'')]"
  have v: "trim (lyricsToUse sample_app) \<noteq> []" "js_ge (credits sample_app) (Fin 2)"
    by (simp_all add: lyricsToUse_def sample_app_def trim_def isWhiteSpace_def)
  have c: "credits sample_app = Fin (of_int 5) \<and> (2::int) \<le> 5 \<and> (5::int) \<le> 2 ^ 53"
    by (simp add: sample_app_def)
  have q: "request sample_env sample_app = sample_request"
    by (simp add: request_def request_of_def lyricsToUse_def sample_app_def sample_env_def
        sample_request_def)
  have f: "\<not> ok sample_failure"
    by (simp add: ok_def sample_failure_def)
  have u: "ok sample_unreadable \<and> res_json sample_unreadable = Inl ?syn"
    by (simp add: ok_def sample_unreadable_def)
  have n: "ok sample_null \<and> res_json sample_null = Inr JNull \<and> get_prop JNull ''audio'' = None"
    by (simp add: ok_def sample_null_def)
  have b: "ok sample_bad_audio \<and> res_json sample_bad_audio = Inr (JObj [(''audio'', JNum 1)])
      \<and> get_prop (JObj [(''audio'', JNum 1)]) ''audio'' = Some (JNum 1)
      \<and> atob sample_env (JNum 1) = Inl ?bad"
    by (simp add: ok_def sample_bad_audio_def sample_env_def)
  have s: "ok sample_success \<and> res_json sample_success = Inr ?doc
      \<and> get_prop ?doc ''audio'' = Some (JStr ''UklGRg=='')
      \<and> atob sample_env (JStr ''UklGRg=='') = Inr ''UklGRg==''"
    by (simp add: ok_def sample_success_def sample_env_def)
  have srv: "compose_responses sample_runtime sample_request sample_disk ?es = [timeout_response]"
    by (simp add: compose_responses_def compose_song_def sample_request_def default_to_def
        sample_runtime_def node_spawn_throws_def has_null_byte_def
        trim_def isWhiteSpace_def run_def on_timeout_def on_error_def on_close_def
        respond_def Let_def)
  have st500: "status timeout_response = 500"
      "res_status sample_failure = status timeout_response"
    by (simp_all add: timeout_response_def sample_failure_def)
  note t = refund_once_per_request[OF v, where ev = sample_env and st = sample_app and n = 5
      and rt = sample_runtime and disk = sample_disk and es = ?es
      and cevs = "[AbortTimer, Network (FetchResolved sample_failure)]"]
  note tf = t[where fr = "FetchResolved sample_failure" and res = sample_failure
      and e = ?syn and data = JNull and au = JNull and bytes = "[]"]
  from tf f have ff: "failed sample_env (FetchResolved sample_failure)"
    by blast
  from tf have "refunds (snd (handleCreateSongFromLyrics sample_env
        (FetchResolved sample_failure) sample_app sample_app))
      = (if failed sample_env (FetchResolved sample_failure) then 1 else 0)"
    by blast
  with ff have w1: "refunds (snd (handleCreateSongFromLyrics sample_env
        (FetchResolved sample_failure) sample_app sample_app)) = 1"
    by simp
  from tf have "credits (fst (handleCreateSongFromLyrics sample_env
        (FetchResolved sample_failure) sample_app sample_app))
      = (if failed sample_env (FetchResolved sample_failure)
         then js_add (js_sub (credits sample_app) (Fin 2)) (Fin 2)
         else js_sub (credits sample_app) (Fin 2))"
    by blast
  moreover from tf c have "js_add (js_sub (credits sample_app) (Fin 2)) (Fin 2) = credits sample_app"
    by blast
  ultimately have w2: "credits (fst (handleCreateSongFromLyrics sample_env
        (FetchResolved sample_failure) sample_app sample_app)) = Fin 5"
    using ff c by simp
  from tf have "compose_session sample_env
        (Network (FetchResolved sample_failure)
         # [AbortTimer, Network (FetchResolved sample_failure)]) sample_app sample_app
      = handleCreateSongFromLyrics sample_env (FetchResolved sample_failure)
          sample_app sample_app"
    by blast
  with w1 have w3: "refunds (snd (compose_session sample_env
        [Network (FetchResolved sample_failure), AbortTimer,
         Network (FetchResolved sample_failure)] sample_app sample_app)) = 1"
    by simp
  from t[where fr = "FetchResolved sample_unreadable" and res = sample_unreadable
      and e = ?syn and data = JNull and au = JNull and bytes = "[]"] u
  have w5: "failed sample_env (FetchResolved sample_unreadable)"
    by blast
  from t[where fr = "FetchResolved sample_null" and res = sample_null
      and e = ?syn and data = JNull and au = JNull and bytes = "[]"] n
  have w6: "failed sample_env (FetchResolved sample_null)"
    by blast
  from t[where fr = "FetchResolved sample_bad_audio" and res = sample_bad_audio
      and e = ?bad and data = "JObj [(''audio'', JNum 1)]" and au = "JNum 1" and bytes = "[]"] b
  have w7: "failed sample_env (FetchResolved sample_bad_audio)"
    by blast
  note ts = t[where fr = "FetchResolved sample_success" and res = sample_success
      and e = ?syn and data = ?doc and au = "JStr ''UklGRg==''" and bytes = "''UklGRg==''"]
  from ts s have nf: "\<not> failed sample_env (FetchResolved sample_success)"
    by blast
  from ts have "refunds (snd (handleCreateSongFromLyrics sample_env
        (FetchResolved sample_success) sample_app sample_app))
      = (if failed sample_env (FetchResolved sample_success) then 1 else 0)"
    by blast
  with nf have w8: "refunds (snd (handleCreateSongFromLyrics sample_env
        (FetchResolved sample_success) sample_app sample_app)) = 0"
    by simp
  from ts have "credits (fst (handleCreateSongFromLyrics sample_env
        (FetchResolved sample_success) sample_app sample_app))
      = (if failed sample_env (FetchResolved sample_success)
         then js_add (js_sub (credits sample_app) (Fin 2)) (Fin 2)
         else js_sub (credits sample_app) (Fin 2))"
    by blast
  moreover from ts c have "js_sub (credits sample_app) (Fin 2) = Fin (of_int (5 - 2))"
    by blast
  ultimately have w9: "credits (fst (handleCreateSongFromLyrics sample_env
        (FetchResolved sample_success) sample_app sample_app)) = Fin 3"
    using nf by simp
  from v f u s w1 w2 w3 w5 w6 w7 w8 w9 srv st500 show ?thesis
    by blast
qed

end
